theory Spec2Isabelle
  imports
    Complex_Main
    "HOL-Library.Word"
    "HOL-Library.Char_ord"
    "HOL-Library.List_Lexorder"
    "HOL-Library.Product_Lexorder"
    "HOL-Library.Option_ord"
    "HOL-Library.Multiset"
begin

unbundle bit_operations_syntax

section \<open>Exceptions\<close>

text \<open>
  The Python exceptions that the modelled code can see. \<open>IntegrityError\<close>,
  \<open>OperationalError\<close> and \<open>DatabaseError\<close> are the \<open>sqlite3\<close> classes (the first is
  the only one \<open>insert_message\<close> catches); \<open>TypeError\<close> is what
  \<open>hmac.compare_digest\<close> raises on a non-ASCII \<open>str\<close>; \<open>ValueError\<close> stands for what
  \<open>json.loads\<close> raises besides \<open>JSONDecodeError\<close> (for instance
  \<open>UnicodeDecodeError\<close>).
\<close>

datatype exn = IntegrityError | OperationalError | DatabaseError | TypeError | ValueError

section \<open>Storage (app/storage.py)\<close>

text \<open>
  One row of table \<open>messages\<close>. A value bound to an SQL parameter is a text or
  \<open>NULL\<close> (Python \<open>None\<close>), written \<open>string option\<close>. Columns declared
  \<open>NOT NULL\<close> hold a \<open>string\<close>. Column \<open>message_id\<close> is \<open>TEXT PRIMARY KEY\<close> of an
  ordinary rowid table, where SQLite admits \<open>NULL\<close> and never counts two \<open>NULL\<close>s
  as equal.
\<close>

record message_row =
  message_id :: "string option"
  from_msisdn :: string
  to_msisdn :: string
  ts :: string
  msg_text :: "string option"
  created_at :: string

type_synonym table = "message_row list"

text \<open>
  What the outside world does to one storage call: \<open>sqlite3.connect\<close>, the statements
  run on the cursor, and \<open>conn.commit\<close> may each raise.
\<close>

record faults =
  on_connect :: "exn option"
  on_execute :: "exn option"
  on_commit :: "exn option"

definition no_faults :: faults where
  "no_faults = \<lparr>on_connect = None, on_execute = None, on_commit = None\<rparr>"

text \<open>
  \<open>Storage.get_connection\<close>: connect (outside the \<open>try\<close>), run the body, commit; an
  exception of the body or of the commit rolls back and is raised again.
\<close>

definition get_connection ::
  "faults \<Rightarrow> table \<Rightarrow> (table \<Rightarrow> (exn + 'a) \<times> table) \<Rightarrow> (exn + 'a) \<times> table" where
  "get_connection fl db body =
     (case on_connect fl of
        Some e \<Rightarrow> (Inl e, db)
      | None \<Rightarrow>
          (case body db of
             (Inl e, _) \<Rightarrow> (Inl e, db)
           | (Inr v, db') \<Rightarrow>
               (case on_commit fl of
                  Some e \<Rightarrow> (Inl e, db)
                | None \<Rightarrow> (Inr v, db'))))"

text \<open>
  \<open>cursor.execute("INSERT INTO messages ... VALUES (?, ?, ?, ?, ?, ?)")\<close> against the
  schema of \<open>CREATE_TABLE_SQL\<close>: a \<open>NULL\<close> in a \<open>NOT NULL\<close> column and a
  \<open>message_id\<close> already present both raise \<open>IntegrityError\<close> and leave the table as
  it was.
\<close>

definition execute_insert ::
  "faults \<Rightarrow> table \<Rightarrow> string option \<Rightarrow> string option \<Rightarrow> string option \<Rightarrow> string option \<Rightarrow>
     string option \<Rightarrow> string \<Rightarrow> exn + table" where
  "execute_insert fl db mid frm to tsv txt created =
     (case on_execute fl of
        Some e \<Rightarrow> Inl e
      | None \<Rightarrow>
          (case (frm, to, tsv) of
             (Some f, Some t, Some s) \<Rightarrow>
               if mid \<noteq> None \<and> mid \<in> set (map message_id db) then Inl IntegrityError
               else Inr (db @ [\<lparr>message_id = mid, from_msisdn = f, to_msisdn = t, ts = s,
                                 msg_text = txt, created_at = created\<rparr>])
           | _ \<Rightarrow> Inl IntegrityError))"

text \<open>
  \<open>Storage.insert_message\<close>. \<open>created\<close> is the clock reading formatted by
  \<open>strftime\<close>. The result is \<open>(success, is_duplicate)\<close> or a raised exception, with
  the table afterwards.
\<close>

definition insert_message ::
  "faults \<Rightarrow> string \<Rightarrow> table \<Rightarrow> string option \<Rightarrow> string option \<Rightarrow> string option \<Rightarrow>
     string option \<Rightarrow> string option \<Rightarrow> (exn + bool \<times> bool) \<times> table" where
  "insert_message fl created db mid frm to tsv txt =
     get_connection fl db
       (\<lambda>d. case execute_insert fl d mid frm to tsv txt created of
               Inr d' \<Rightarrow> (Inr (True, False), d')
             | Inl e \<Rightarrow>
                 if e = IntegrityError then (Inr (True, True), d) else (Inl e, d))"

text \<open>The primary-key invariant of the table: no text \<open>message_id\<close> occurs twice.\<close>

definition pk_ok :: "table \<Rightarrow> bool" where
  "pk_ok db = distinct (filter (\<lambda>k. k \<noteq> None) (map message_id db))"

definition rows_with_id :: "table \<Rightarrow> string \<Rightarrow> message_row list" where
  "rows_with_id db k = filter (\<lambda>r. message_id r = Some k) db"

section \<open>Retrieval\<close>

text \<open>
  SQLite's \<open>LIKE\<close>. The operator reads its pattern and its text as C strings, up
  to the first NUL character (\<open>c_string\<close>). In what it reads, \<open>%\<close> stands for any
  run of characters, \<open>_\<close> for any one character, every other pattern character for
  itself, upper and lower case ASCII letters being equal (\<open>pattern_compare\<close>). No escape
  character is declared by the query.
\<close>

definition ascii_lower :: "char \<Rightarrow> char" where
  "ascii_lower c =
     (if CHR ''A'' \<le> c \<and> c \<le> CHR ''Z'' then char_of (of_char c + (32::nat)) else c)"

definition c_string :: "string \<Rightarrow> string" where
  "c_string s = takeWhile (\<lambda>c. c \<noteq> CHR 0x00) s"

fun pattern_compare :: "string \<Rightarrow> string \<Rightarrow> bool" where
  "pattern_compare [] t = (t = [])"
| "pattern_compare (p # ps) [] = (p = CHR ''%'' \<and> pattern_compare ps [])"
| "pattern_compare (p # ps) (c # cs) =
     (if p = CHR ''%'' then pattern_compare ps (c # cs) \<or> pattern_compare (p # ps) cs
      else (p = CHR ''_'' \<or> ascii_lower p = ascii_lower c) \<and> pattern_compare ps cs)"

definition like :: "string \<Rightarrow> string \<Rightarrow> bool" where
  "like pattern t = pattern_compare (c_string pattern) (c_string t)"

text \<open>
  The \<open>WHERE\<close> clause built by \<open>Storage.get_messages\<close>: one condition per filter that is
  truthy (neither \<open>None\<close> nor the empty string), joined by \<open>AND\<close>. A \<open>NULL\<close> text
  makes \<open>text LIKE ?\<close> \<open>NULL\<close>, which selects nothing.
\<close>

definition conditions ::
  "string option \<Rightarrow> string option \<Rightarrow> string option \<Rightarrow> (message_row \<Rightarrow> bool) list" where
  "conditions from_filter since q =
     (case from_filter of
        None \<Rightarrow> []
      | Some f \<Rightarrow> if f = [] then [] else [\<lambda>r. from_msisdn r = f]) @
     (case since of
        None \<Rightarrow> []
      | Some s \<Rightarrow> if s = [] then [] else [\<lambda>r. s \<le> ts r]) @
     (case q of
        None \<Rightarrow> []
      | Some p \<Rightarrow>
          if p = [] then []
          else [\<lambda>r. case msg_text r of
                       None \<Rightarrow> False
                     | Some t \<Rightarrow> like (CHR ''%'' # p @ [CHR ''%'']) t])"

definition where_clause :: "(message_row \<Rightarrow> bool) list \<Rightarrow> message_row \<Rightarrow> bool" where
  "where_clause conds r = list_all (\<lambda>c. c r) conds"

text \<open>The dictionary built for each selected row (\<open>created_at\<close> is not selected).\<close>

record message_out =
  out_message_id :: "string option"
  out_from :: string
  out_to :: string
  out_ts :: string
  out_text :: "string option"

definition to_dict :: "message_row \<Rightarrow> message_out" where
  "to_dict r = \<lparr>out_message_id = message_id r, out_from = from_msisdn r, out_to = to_msisdn r,
                out_ts = ts r, out_text = msg_text r\<rparr>"

text \<open>
  \<open>ORDER BY ts ASC, message_id ASC\<close>: texts compare by code point, \<open>NULL\<close> sorts
  first. \<open>LIMIT ? OFFSET ?\<close>: a negative limit is no limit, a negative offset is 0.
\<close>

definition order_by_ts_message_id :: "table \<Rightarrow> table" where
  "order_by_ts_message_id rows = sort_key (\<lambda>r. (ts r, message_id r)) rows"

definition limit_offset :: "int \<Rightarrow> int \<Rightarrow> 'a list \<Rightarrow> 'a list" where
  "limit_offset limit offset xs =
     (let ys = drop (nat offset) xs in if limit < 0 then ys else take (nat limit) ys)"

definition get_messages ::
  "faults \<Rightarrow> table \<Rightarrow> int \<Rightarrow> int \<Rightarrow> string option \<Rightarrow> string option \<Rightarrow> string option \<Rightarrow>
     exn + (message_out list \<times> nat)" where
  "get_messages fl db limit offset from_filter since q =
     fst (get_connection fl db
       (\<lambda>d. case on_execute fl of
               Some e \<Rightarrow> (Inl e, d)
             | None \<Rightarrow>
                 (let conds = conditions from_filter since q;
                      total = length (filter (where_clause conds) d);
                      rows = limit_offset limit offset
                               (order_by_ts_message_id (filter (where_clause conds) d))
                  in (Inr (map to_dict rows, total), d))))"

section \<open>Statistics\<close>

record stats =
  total_messages :: nat
  senders_count :: nat
  messages_per_sender :: "(string \<times> nat) list"
  first_message_ts :: "string option"
  last_message_ts :: "string option"

text \<open>
  \<open>SELECT from_msisdn, COUNT(*) ... GROUP BY from_msisdn\<close>: one pair per distinct
  sender, here in ascending sender order. \<open>ORDER BY count DESC LIMIT 10\<close> keeps the ten
  largest counts; SQL leaves the order among equal counts open, the model keeps the
  order of the groups.
\<close>

definition group_by_from :: "table \<Rightarrow> (string \<times> nat) list" where
  "group_by_from db =
     map (\<lambda>s. (s, length (filter (\<lambda>r. from_msisdn r = s) db)))
       (sort (remdups (map from_msisdn db)))"

definition top_senders :: "table \<Rightarrow> (string \<times> nat) list" where
  "top_senders db = take 10 (sort_key (\<lambda>(s, c). - int c) (group_by_from db))"

definition min_max_ts :: "table \<Rightarrow> string option \<times> string option" where
  "min_max_ts db =
     (case map ts db of
        [] \<Rightarrow> (None, None)
      | t # rest \<Rightarrow> (Some (fold min rest t), Some (fold max rest t)))"

definition get_stats :: "faults \<Rightarrow> table \<Rightarrow> exn + stats" where
  "get_stats fl db =
     fst (get_connection fl db
       (\<lambda>d. case on_execute fl of
               Some e \<Rightarrow> (Inl e, d)
             | None \<Rightarrow>
                 (Inr \<lparr>total_messages = length d,
                       senders_count = length (remdups (map from_msisdn d)),
                       messages_per_sender = top_senders d,
                       first_message_ts = fst (min_max_ts d),
                       last_message_ts = snd (min_max_ts d)\<rparr>, d)))"

section \<open>Metrics (app/metrics.py)\<close>

text \<open>
  Keys of the histogram dictionary: the boundaries of \<open>LATENCY_BUCKETS\<close> and
  \<open>float("inf")\<close>. \<open>__init__\<close> creates the dictionary with every key and no key is
  added or removed afterwards, so it is a function from keys to counts.
\<close>

datatype bucket_key = Le nat | PlusInf

definition LATENCY_BUCKETS :: "nat list" where
  "LATENCY_BUCKETS = [10, 25, 50, 100, 250, 500, 1000, 2500, 5000, 10000]"

text \<open>
  The two counters are \<open>defaultdict(int)\<close>: association lists in insertion order,
  a missing key counting from 0. A latency is a finite number of milliseconds; the
  running sum is kept exactly (the rounding of float addition is outside the model).
\<close>

record metrics_collector =
  http_requests :: "((string \<times> int) \<times> nat) list"
  webhook_requests :: "(string \<times> nat) list"
  latency_buckets :: "bucket_key \<Rightarrow> nat"
  latency_count :: nat
  latency_sum :: rat

definition new_metrics :: metrics_collector where
  "new_metrics = \<lparr>http_requests = [], webhook_requests = [], latency_buckets = (\<lambda>_. 0),
                   latency_count = 0, latency_sum = 0\<rparr>"

fun dict_inc :: "('k \<times> nat) list \<Rightarrow> 'k \<Rightarrow> ('k \<times> nat) list" where
  "dict_inc [] k = [(k, 1)]"
| "dict_inc ((k', v) # d) k = (if k' = k then (k', v + 1) # d else (k', v) # dict_inc d k)"

definition inc_http_requests :: "string \<Rightarrow> int \<Rightarrow> metrics_collector \<Rightarrow> metrics_collector" where
  "inc_http_requests path status m =
     m\<lparr>http_requests := dict_inc (http_requests m) (path, status)\<rparr>"

definition inc_webhook_requests :: "string \<Rightarrow> metrics_collector \<Rightarrow> metrics_collector" where
  "inc_webhook_requests result m = m\<lparr>webhook_requests := dict_inc (webhook_requests m) result\<rparr>"

definition observe_latency :: "rat \<Rightarrow> metrics_collector \<Rightarrow> metrics_collector" where
  "observe_latency latency_ms m =
     (let buckets =
            fold (\<lambda>bucket f.
                    if latency_ms \<le> of_nat bucket
                    then f(Le bucket := f (Le bucket) + 1) else f)
              LATENCY_BUCKETS (latency_buckets m)
      in m\<lparr>latency_count := latency_count m + 1,
           latency_sum := latency_sum m + latency_ms,
           latency_buckets := buckets(PlusInf := buckets PlusInf + 1)\<rparr>)"

text \<open>The collector after a sequence of observations on a fresh instance.\<close>

definition observe_all :: "rat list \<Rightarrow> metrics_collector" where
  "observe_all obs = fold observe_latency obs new_metrics"

text \<open>
  The exposition lines, one constructor per line template of
  \<open>format_prometheus\<close> with the values it interpolates.
\<close>

datatype line =
  Text string
| HttpRequestsTotal string int nat
| WebhookRequestsTotal string nat
| LatencyBucket bucket_key nat
| LatencyCount nat
| LatencySum rat

text \<open>The histogram loop of \<open>format_prometheus\<close>, with its running variable \<open>cumulative\<close>.\<close>

fun bucket_lines :: "(bucket_key \<Rightarrow> nat) \<Rightarrow> nat \<Rightarrow> nat list \<Rightarrow> line list" where
  "bucket_lines f cumulative [] = []"
| "bucket_lines f cumulative (bucket # rest) =
     LatencyBucket (Le bucket) (cumulative + f (Le bucket)) #
       bucket_lines f (cumulative + f (Le bucket)) rest"

definition format_prometheus :: "metrics_collector \<Rightarrow> line list" where
  "format_prometheus m =
     [Text ''# HELP http_requests_total Total HTTP requests'',
      Text ''# TYPE http_requests_total counter''] @
     map (\<lambda>((path, status), count). HttpRequestsTotal path status count)
       (sort (http_requests m)) @
     [Text [],
      Text ''# HELP webhook_requests_total Total webhook requests by result'',
      Text ''# TYPE webhook_requests_total counter''] @
     map (\<lambda>(result, count). WebhookRequestsTotal result count) (sort (webhook_requests m)) @
     [Text [],
      Text ''# HELP request_latency_ms Request latency in milliseconds'',
      Text ''# TYPE request_latency_ms histogram''] @
     bucket_lines (latency_buckets m) 0 LATENCY_BUCKETS @
     [LatencyBucket PlusInf (latency_buckets m PlusInf),
      LatencyCount (latency_count m),
      LatencySum (latency_sum m)]"

text \<open>The counts of the \<open>request_latency_ms_bucket\<close> lines, in output order.\<close>

fun bucket_counts :: "line list \<Rightarrow> nat list" where
  "bucket_counts [] = []"
| "bucket_counts (LatencyBucket k c # ls) = c # bucket_counts ls"
| "bucket_counts (l # ls) = bucket_counts ls"

fun count_line :: "line list \<Rightarrow> nat option" where
  "count_line [] = None"
| "count_line (LatencyCount n # ls) = Some n"
| "count_line (l # ls) = count_line ls"

section \<open>Signature verification (app/main.py)\<close>

type_synonym byte = "8 word"

text \<open>
  A \<open>str\<close> read from an HTTP header is decoded as Latin-1, one character per byte, so
  \<open>string\<close> holds exactly the header values; the secret is taken with characters up
  to \<open>U+00FF\<close> as well. \<open>encode\<close> is \<open>str.encode()\<close> (UTF-8) on such characters;
  \<open>hexdigest\<close> writes each byte as two lower-case hexadecimal digits.
\<close>

definition encode :: "string \<Rightarrow> byte list" where
  "encode s =
     concat (map (\<lambda>c. if of_char c < (128::nat) then [of_char c]
                       else [of_nat (192 + of_char c div 64), of_nat (128 + of_char c mod 64)]) s)"

definition hex_digit :: "nat \<Rightarrow> char" where
  "hex_digit n = (if n < 10 then char_of (48 + n) else char_of (87 + n))"

definition hexdigest :: "byte list \<Rightarrow> string" where
  "hexdigest bs = concat (map (\<lambda>b. [hex_digit (unat b div 16), hex_digit (unat b mod 16)]) bs)"

definition is_ascii :: "string \<Rightarrow> bool" where
  "is_ascii s = list_all (\<lambda>c. of_char c < (128::nat)) s"

text \<open>
  \<open>hmac.compare_digest\<close> on two \<open>str\<close>: equality when both are ASCII, \<open>TypeError\<close>
  otherwise. How long the comparison takes is not part of the model.
\<close>

definition compare_digest :: "string \<Rightarrow> string \<Rightarrow> exn + bool" where
  "compare_digest a b = (if is_ascii a \<and> is_ascii b then Inr (a = b) else Inl TypeError)"

text \<open>
  \<open>verify_signature\<close>. The keyed hash \<open>hmac.new(key, msg, hashlib.sha256).digest()\<close> of
  the standard library is the parameter \<open>mac\<close>, taking key and message.
\<close>

definition verify_signature ::
  "(byte list \<Rightarrow> byte list \<Rightarrow> byte list) \<Rightarrow> byte list \<Rightarrow> string \<Rightarrow> string \<Rightarrow> exn + bool" where
  "verify_signature mac body signature secret =
     compare_digest (hexdigest (mac (encode secret) body)) signature"

section \<open>The webhook handler and the middleware (app/main.py)\<close>

text \<open>The validated payload (\<open>WebhookMessage\<close> of app/models.py).\<close>

record webhook_message =
  wm_message_id :: string
  wm_from :: string
  wm_to :: string
  wm_ts :: string
  wm_text :: "string option"

text \<open>
  What \<open>json.loads(body)\<close> followed by \<open>WebhookMessage(**payload)\<close> does with a body:
  a message, one of the two exceptions the handler catches on the spot (the second
  with the list of \<open>(loc, msg, type)\<close> of pydantic), or any other exception.
\<close>

datatype parse_result =
  Parsed webhook_message
| JSONDecodeError
| ValidationError "(string list \<times> string \<times> string) list"
| ParseRaises exn

record env =
  hmac_sha256 :: "byte list \<Rightarrow> byte list \<Rightarrow> byte list"
  parse_payload :: "byte list \<Rightarrow> parse_result"

record settings =
  webhook_secret :: "string option"

record request =
  x_signature :: "string option"
  body :: "byte list"

text \<open>
  What is read from outside while one request is served: the faults of its storage
  call, the clock at insertion and the latency measured by the middleware.
\<close>

record world =
  storage_faults :: faults
  clock :: string
  elapsed_ms :: rat

datatype content =
  StatusOk
| Detail string
| DetailErrors "(string list \<times> string \<times> string) list"

record response =
  status_code :: int
  content :: content

record app_state =
  storage :: table
  metrics :: metrics_collector

text \<open>One exit of the handler: count the result, answer with the status and content.\<close>

definition finish :: "string \<Rightarrow> int \<Rightarrow> content \<Rightarrow> app_state \<Rightarrow> response \<times> app_state" where
  "finish result status c st =
     (\<lparr>status_code = status, content = c\<rparr>,
      st\<lparr>metrics := inc_webhook_requests result (metrics st)\<rparr>)"

definition webhook :: "env \<Rightarrow> settings \<Rightarrow> world \<Rightarrow> request \<Rightarrow> app_state \<Rightarrow> response \<times> app_state" where
  "webhook ev cfg w req st =
     (case webhook_secret cfg of
        None \<Rightarrow> finish ''server_error'' 503 (Detail ''server not ready'') st
      | Some secret \<Rightarrow>
          if secret = [] then finish ''server_error'' 503 (Detail ''server not ready'') st
          else
            (case x_signature req of
               None \<Rightarrow> finish ''invalid_signature'' 401 (Detail ''invalid signature'') st
             | Some sg \<Rightarrow>
                 if sg = [] then finish ''invalid_signature'' 401 (Detail ''invalid signature'') st
                 else
                   (case verify_signature (hmac_sha256 ev) (body req) sg secret of
                      Inl e \<Rightarrow> finish ''server_error'' 500 (Detail ''internal server error'') st
                    | Inr False \<Rightarrow>
                        finish ''invalid_signature'' 401 (Detail ''invalid signature'') st
                    | Inr True \<Rightarrow>
                        (case parse_payload ev (body req) of
                           JSONDecodeError \<Rightarrow>
                             finish ''validation_error'' 422 (Detail ''Invalid JSON'') st
                         | ValidationError errors \<Rightarrow>
                             finish ''validation_error'' 422 (DetailErrors errors) st
                         | ParseRaises e \<Rightarrow>
                             finish ''server_error'' 500 (Detail ''internal server error'') st
                         | Parsed message \<Rightarrow>
                             (case insert_message (storage_faults w) (clock w) (storage st)
                                     (Some (wm_message_id message)) (Some (wm_from message))
                                     (Some (wm_to message)) (Some (wm_ts message))
                                     (wm_text message) of
                                (Inl e, db) \<Rightarrow>
                                  finish ''server_error'' 500 (Detail ''internal server error'')
                                    (st\<lparr>storage := db\<rparr>)
                              | (Inr (success, is_dup), db) \<Rightarrow>
                                  finish (if is_dup then ''duplicate'' else ''created'') 200
                                    StatusOk (st\<lparr>storage := db\<rparr>))))))"

text \<open>
  \<open>logging_middleware\<close> around a handler: after the response, count the request by
  path and status and observe its latency.
\<close>

definition logging_middleware ::
  "string \<Rightarrow> world \<Rightarrow> (app_state \<Rightarrow> response \<times> app_state) \<Rightarrow> app_state \<Rightarrow>
     response \<times> app_state" where
  "logging_middleware path w call_next st =
     (case call_next st of
        (resp, st') \<Rightarrow>
          (resp,
           st'\<lparr>metrics :=
                 observe_latency (elapsed_ms w)
                   (inc_http_requests path (status_code resp) (metrics st'))\<rparr>))"

definition post_webhook ::
  "env \<Rightarrow> settings \<Rightarrow> world \<Rightarrow> request \<Rightarrow> app_state \<Rightarrow> response \<times> app_state" where
  "post_webhook ev cfg w req st = logging_middleware ''/webhook'' w (webhook ev cfg w req) st"

text \<open>The number of webhook results counted so far, over all labels.\<close>

definition webhook_results_total :: "metrics_collector \<Rightarrow> nat" where
  "webhook_results_total m = sum_list (map snd (webhook_requests m))"

section \<open>Notions used to state the properties\<close>

text \<open>The sort key of the page, read from the returned dictionaries.\<close>

definition sort_key_out :: "message_out \<Rightarrow> string \<times> string option" where
  "sort_key_out m = (out_ts m, out_message_id m)"

text \<open>\<open>contains q t\<close>: the text \<open>t\<close> has \<open>q\<close> as a substring, character for character.\<close>

definition contains :: "string \<Rightarrow> string \<Rightarrow> bool" where
  "contains q t = list_ex (\<lambda>i. take (length q) (drop i t) = q) [0..<Suc (length t)]"

text \<open>\<open>sum(s["count"] for s in messages_per_sender)\<close>.\<close>

definition sum_counts :: "stats \<Rightarrow> nat" where
  "sum_counts st = sum_list (map snd (messages_per_sender st))"

text \<open>The result label and status code of each way out of the webhook handler.\<close>

definition exits :: "(string \<times> int) list" where
  "exits = [(''created'', 200), (''duplicate'', 200), (''invalid_signature'', 401),
            (''validation_error'', 422), (''server_error'', 503), (''server_error'', 500)]"

section \<open>Sample data\<close>

definition row_a :: message_row where
  "row_a = \<lparr>message_id = Some ''m1'', from_msisdn = ''+1555'', to_msisdn = ''+1666'',
            ts = ''2025-01-15T10:00:00Z'', msg_text = Some ''Hello'',
            created_at = ''2025-01-15T10:00:01Z''\<rparr>"

definition execute_fails :: faults where
  "execute_fails = \<lparr>on_connect = None, on_execute = Some OperationalError, on_commit = None\<rparr>"

definition mk_row :: "string \<Rightarrow> string \<Rightarrow> string \<Rightarrow> string option \<Rightarrow> message_row" where
  "mk_row k s t x = \<lparr>message_id = Some k, from_msisdn = s, to_msisdn = ''+14155550100'',
                     ts = t, msg_text = x, created_at = ''2025-01-16T00:00:00Z''\<rparr>"

text \<open>Four messages stored out of order, two of them with the same timestamp.\<close>

definition four_rows :: table where
  "four_rows =
     [mk_row ''m3'' ''+919876543210'' ''2025-01-15T12:00:00Z'' (Some ''Third''),
      mk_row ''m1'' ''+919876543210'' ''2025-01-15T10:00:00Z'' (Some ''First''),
      mk_row ''m2b'' ''+919876543211'' ''2025-01-15T11:00:00Z'' None,
      mk_row ''m2a'' ''+919876543210'' ''2025-01-15T11:00:00Z'' (Some ''Second A'')]"

text \<open>Eleven messages of eleven senders.\<close>

definition senders_11 :: table where
  "senders_11 =
     [mk_row ''m00'' ''+100'' ''2025-01-15T10:00:00Z'' None,
      mk_row ''m01'' ''+101'' ''2025-01-15T10:00:00Z'' None,
      mk_row ''m02'' ''+102'' ''2025-01-15T10:00:00Z'' None,
      mk_row ''m03'' ''+103'' ''2025-01-15T10:00:00Z'' None,
      mk_row ''m04'' ''+104'' ''2025-01-15T10:00:00Z'' None,
      mk_row ''m05'' ''+105'' ''2025-01-15T10:00:00Z'' None,
      mk_row ''m06'' ''+106'' ''2025-01-15T10:00:00Z'' None,
      mk_row ''m07'' ''+107'' ''2025-01-15T10:00:00Z'' None,
      mk_row ''m08'' ''+108'' ''2025-01-15T10:00:00Z'' None,
      mk_row ''m09'' ''+109'' ''2025-01-15T10:00:00Z'' None,
      mk_row ''m10'' ''+110'' ''2025-01-15T10:00:00Z'' None]"

definition stats_11 :: stats where
  "stats_11 =
     \<lparr>total_messages = 11, senders_count = 11,
      messages_per_sender =
        [(''+100'', 1), (''+101'', 1), (''+102'', 1), (''+103'', 1), (''+104'', 1),
         (''+105'', 1), (''+106'', 1), (''+107'', 1), (''+108'', 1), (''+109'', 1)],
      first_message_ts = Some ''2025-01-15T10:00:00Z'',
      last_message_ts = Some ''2025-01-15T10:00:00Z''\<rparr>"

definition stats_4 :: stats where
  "stats_4 =
     \<lparr>total_messages = 4, senders_count = 2,
      messages_per_sender = [(''+919876543210'', 3), (''+919876543211'', 1)],
      first_message_ts = Some ''2025-01-15T10:00:00Z'',
      last_message_ts = Some ''2025-01-15T12:00:00Z''\<rparr>"

text \<open>
  A stand-in for the keyed hash with digests of 32 bytes, two request bodies and what
  they parse to: two deliveries of \<open>m1\<close> that differ in every other field.
\<close>

definition zero_mac :: "byte list \<Rightarrow> byte list \<Rightarrow> byte list" where
  "zero_mac key msg = replicate 32 0"

definition zero_signature :: string where
  "zero_signature = hexdigest (replicate 32 0)"

definition body_1 :: "byte list" where
  "body_1 = encode ''delivery 1''"

definition body_2 :: "byte list" where
  "body_2 = encode ''delivery 2''"

definition msg_1 :: webhook_message where
  "msg_1 = \<lparr>wm_message_id = ''m1'', wm_from = ''+1555'', wm_to = ''+1666'',
            wm_ts = ''2025-01-15T10:00:00Z'', wm_text = Some ''Hello''\<rparr>"

definition msg_2 :: webhook_message where
  "msg_2 = \<lparr>wm_message_id = ''m1'', wm_from = ''+1777'', wm_to = ''+1888'',
            wm_ts = ''2025-02-01T00:00:00Z'', wm_text = None\<rparr>"

definition sample_parse :: "byte list \<Rightarrow> parse_result" where
  "sample_parse b =
     (if b = body_1 then Parsed msg_1 else if b = body_2 then Parsed msg_2 else JSONDecodeError)"

definition sample_env :: env where
  "sample_env = \<lparr>hmac_sha256 = zero_mac, parse_payload = sample_parse\<rparr>"

definition sample_settings :: settings where
  "sample_settings = \<lparr>webhook_secret = Some ''s''\<rparr>"

definition request_1 :: request where
  "request_1 = \<lparr>x_signature = Some zero_signature, body = body_1\<rparr>"

definition request_2 :: request where
  "request_2 = \<lparr>x_signature = Some zero_signature, body = body_2\<rparr>"

definition request_unsigned :: request where
  "request_unsigned = \<lparr>x_signature = None, body = body_1\<rparr>"

definition quiet_world :: world where
  "quiet_world = \<lparr>storage_faults = no_faults, clock = ''2025-01-15T10:00:01Z'', elapsed_ms = 5\<rparr>"

definition empty_state :: app_state where
  "empty_state = \<lparr>storage = [], metrics = new_metrics\<rparr>"

text \<open>Pages of \<open>four_rows\<close>: everything, the messages of one sender, and a window of those.\<close>

definition page_all :: "message_out list" where
  "page_all = map to_dict
     [mk_row ''m1'' ''+919876543210'' ''2025-01-15T10:00:00Z'' (Some ''First''),
      mk_row ''m2a'' ''+919876543210'' ''2025-01-15T11:00:00Z'' (Some ''Second A''),
      mk_row ''m2b'' ''+919876543211'' ''2025-01-15T11:00:00Z'' None,
      mk_row ''m3'' ''+919876543210'' ''2025-01-15T12:00:00Z'' (Some ''Third'')]"

definition page_sender :: "message_out list" where
  "page_sender = map to_dict
     [mk_row ''m1'' ''+919876543210'' ''2025-01-15T10:00:00Z'' (Some ''First''),
      mk_row ''m2a'' ''+919876543210'' ''2025-01-15T11:00:00Z'' (Some ''Second A''),
      mk_row ''m3'' ''+919876543210'' ''2025-01-15T12:00:00Z'' (Some ''Third'')]"

definition page_window :: "message_out list" where
  "page_window = map to_dict
     [mk_row ''m2a'' ''+919876543210'' ''2025-01-15T11:00:00Z'' (Some ''Second A''),
      mk_row ''m3'' ''+919876543210'' ''2025-01-15T12:00:00Z'' (Some ''Third'')]"

section \<open>Idempotent insertion\<close>





lemma rows_with_id_absent:
  "Some k \<notin> set (map message_id db) \<Longrightarrow> rows_with_id db k = []"
  by (induction db) (auto simp: rows_with_id_def)





text \<open>
  C9. \<open>insert_message\<close> never returns \<open>(False, False)\<close>. When the \<open>INSERT\<close> raises
  \<open>IntegrityError\<close> the call returns \<open>(True, True)\<close> and stores nothing, also when the
  violated constraint is a \<open>NOT NULL\<close> one and no row has the identifier. Every other
  exception, whether raised by the connection, the statement or the commit, leaves the
  call as that exception with the table unchanged.
\<close>

theorem insert_message_never_failed_outcome:
  "fst (insert_message fl c db mid f t s x) \<noteq> Inr (False, False) \<and>
   (on_connect fl = None \<and> on_commit fl = None \<and>
      execute_insert fl db mid f t s x c = Inl IntegrityError
        \<longrightarrow> insert_message fl c db mid f t s x = (Inr (True, True), db)) \<and>
   (on_connect fl = None \<and> on_execute fl = None \<and> on_commit fl = None \<and>
      (f = None \<or> t = None \<or> s = None)
        \<longrightarrow> insert_message fl c db mid f t s x = (Inr (True, True), db)) \<and>
   (on_connect fl = None \<and> execute_insert fl db mid f t s x c = Inl e \<and> e \<noteq> IntegrityError
        \<longrightarrow> insert_message fl c db mid f t s x = (Inl e, db)) \<and>
   (on_connect fl = Some e \<longrightarrow> insert_message fl c db mid f t s x = (Inl e, db)) \<and>
   (on_connect fl = None \<and> on_commit fl = Some e \<and>
      execute_insert fl db mid f t s x c \<in> {Inl IntegrityError} \<union> range Inr
        \<longrightarrow> insert_message fl c db mid f t s x = (Inl e, db))"
  by (auto simp: insert_message_def get_connection_def execute_insert_def
           split: option.splits sum.splits if_splits)

theorem insert_message_never_failed_outcome_witness:
  "execute_insert no_faults [] (Some ''m9'') None (Some ''+1666'')
     (Some ''2025-01-15T10:00:00Z'') None ''2025-01-15T10:00:01Z'' = Inl IntegrityError \<and>
   insert_message no_faults ''2025-01-15T10:00:01Z'' [] (Some ''m9'') None (Some ''+1666'')
     (Some ''2025-01-15T10:00:00Z'') None = (Inr (True, True), []) \<and>
   execute_insert execute_fails [] (Some ''m9'') (Some ''+1555'') (Some ''+1666'')
     (Some ''2025-01-15T10:00:00Z'') None ''2025-01-15T10:00:01Z'' = Inl OperationalError \<and>
   insert_message execute_fails ''2025-01-15T10:00:01Z'' [] (Some ''m9'') (Some ''+1555'')
     (Some ''+1666'') (Some ''2025-01-15T10:00:00Z'') None = (Inl OperationalError, [])"
  using
    insert_message_never_failed_outcome [where fl = no_faults and db = "[]"
      and mid = "Some ''m9''" and f = None and t = "Some ''+1666''"
      and s = "Some ''2025-01-15T10:00:00Z''" and x = None and c = "''2025-01-15T10:00:01Z''"]
    insert_message_never_failed_outcome [where fl = execute_fails and db = "[]"
      and mid = "Some ''m9''" and f = "Some ''+1555''" and t = "Some ''+1666''"
      and s = "Some ''2025-01-15T10:00:00Z''" and x = None and c = "''2025-01-15T10:00:01Z''"
      and e = OperationalError]
  by (simp add: execute_insert_def no_faults_def execute_fails_def)

section \<open>Signature verification\<close>

lemma byte_high_nibble: "unat (b::byte) div 16 < 16"
proof -
  have "unat b < 2 ^ 8" using unsigned_less [of b] by simp
  then show ?thesis by simp
qed

lemma hex_digit_ascii: "n < 16 \<Longrightarrow> of_char (hex_digit n) < (128::nat)"
  by (simp add: hex_digit_def)

lemma is_ascii_hexdigest: "is_ascii (hexdigest bs)"
  by (induction bs) (simp_all add: is_ascii_def hexdigest_def hex_digit_ascii byte_high_nibble)

lemma length_hexdigest: "length (hexdigest bs) = 2 * length bs"
  by (induction bs) (simp_all add: hexdigest_def)

lemma verify_signature_ascii:
  "is_ascii signature \<Longrightarrow>
     verify_signature mac msg signature secret =
       Inr (hexdigest (mac (encode secret) msg) = signature)"
  by (simp add: verify_signature_def compare_digest_def is_ascii_hexdigest)

lemma verify_signature_not_ascii:
  "\<not> is_ascii signature \<Longrightarrow> verify_signature mac msg signature secret = Inl TypeError"
  by (simp add: verify_signature_def compare_digest_def)

text \<open>
  C5. The claim is that \<open>verify_signature\<close> returns a boolean for every signature
  string and never raises. On the one-character signature \<open>U+00E9\<close>, which an
  \<open>X-Signature\<close> header can carry, \<open>hmac.compare_digest\<close> raises \<open>TypeError\<close>:
  \<open>verify_signature\<close> raises, and the handler answers 500 and counts
  \<open>server_error\<close> where a signature that does not match is answered 401.
\<close>

theorem verify_signature_raises_on_non_ascii:
  "verify_signature zero_mac body_1 [CHR 0xE9] ''s'' = Inl TypeError \<and>
   fst (webhook sample_env sample_settings quiet_world
          \<lparr>x_signature = Some [CHR 0xE9], body = body_1\<rparr> empty_state) =
     \<lparr>status_code = 500, content = Detail ''internal server error''\<rparr> \<and>
   fst (webhook sample_env sample_settings quiet_world
          \<lparr>x_signature = Some ''00'', body = body_1\<rparr> empty_state) =
     \<lparr>status_code = 401, content = Detail ''invalid signature''\<rparr>"
proof -
  have raises: "verify_signature zero_mac msg [CHR 0xE9] secret = Inl TypeError" for msg secret
    by (rule verify_signature_not_ascii) (simp add: is_ascii_def)
  have "length (hexdigest (zero_mac (encode ''s'') body_1)) = 64"
    by (simp add: length_hexdigest zero_mac_def)
  then have "hexdigest (zero_mac (encode ''s'') body_1) \<noteq> ''00''"
    by auto
  then have rejects: "verify_signature zero_mac body_1 ''00'' ''s'' = Inr False"
    by (simp add: verify_signature_ascii is_ascii_def)
  show ?thesis
    by (simp add: raises rejects webhook_def finish_def sample_env_def sample_settings_def)
qed

section \<open>The webhook handler\<close>

lemma sum_list_dict_inc: "sum_list (map snd (dict_inc d k)) = sum_list (map snd d) + 1"
  by (induction d k rule: dict_inc.induct) simp_all

lemma finish_exit:
  assumes "webhook ev cfg w req st = finish result status c st'"
      and "metrics st' = metrics st" and "(result, status) \<in> set exits"
  shows "\<exists>result.
     (result, status_code (fst (webhook ev cfg w req st))) \<in> set exits \<and>
     metrics (snd (webhook ev cfg w req st)) = inc_webhook_requests result (metrics st)"
  using assms by (intro exI [of _ result]) (simp add: finish_def)

text \<open>Every path through the handler ends in one \<open>finish\<close>, on the metrics it was given.\<close>

lemma webhook_exit:
  "\<exists>result.
     (result, status_code (fst (webhook ev cfg w req st))) \<in> set exits \<and>
     metrics (snd (webhook ev cfg w req st)) = inc_webhook_requests result (metrics st)"
proof -
  let ?not_ready = "finish ''server_error'' 503 (Detail ''server not ready'') st"
  let ?unauthorized = "finish ''invalid_signature'' 401 (Detail ''invalid signature'') st"
  let ?failed = "finish ''server_error'' 500 (Detail ''internal server error'') st"
  have not_ready: "webhook ev cfg w req st = ?not_ready \<Longrightarrow> ?thesis"
    by (rule finish_exit [where result = "''server_error''" and status = 503 and st' = st])
       (simp_all add: exits_def)
  have unauthorized: "webhook ev cfg w req st = ?unauthorized \<Longrightarrow> ?thesis"
    by (rule finish_exit [where result = "''invalid_signature''" and status = 401 and st' = st])
       (simp_all add: exits_def)
  have failed: "webhook ev cfg w req st = ?failed \<Longrightarrow> ?thesis"
    by (rule finish_exit [where result = "''server_error''" and status = 500 and st' = st])
       (simp_all add: exits_def)
  show ?thesis
  proof (cases "webhook_secret cfg")
    case None
    then show ?thesis by (intro not_ready) (simp add: webhook_def)
  next
    case secret: (Some secret)
    show ?thesis
    proof (cases "secret = []")
      case True
      with secret show ?thesis by (intro not_ready) (simp add: webhook_def)
    next
      case keyed: False
      show ?thesis
      proof (cases "x_signature req")
        case None
        with secret keyed show ?thesis by (intro unauthorized) (simp add: webhook_def)
      next
        case sg: (Some sg)
        show ?thesis
        proof (cases "sg = []")
          case True
          with secret keyed sg show ?thesis by (intro unauthorized) (simp add: webhook_def)
        next
          case signed: False
          show ?thesis
          proof (cases "verify_signature (hmac_sha256 ev) (body req) sg secret")
            case (Inl e)
            with secret keyed sg signed show ?thesis
              by (intro failed) (simp add: webhook_def)
          next
            case (Inr ok)
            show ?thesis
            proof (cases ok)
              case False
              with secret keyed sg signed Inr show ?thesis
                by (intro unauthorized) (simp add: webhook_def)
            next
              case True
              note pre = secret keyed sg signed Inr True
              show ?thesis
              proof (cases "parse_payload ev (body req)")
                case JSONDecodeError
                with pre have "webhook ev cfg w req st =
                    finish ''validation_error'' 422 (Detail ''Invalid JSON'') st"
                  by (simp add: webhook_def)
                then show ?thesis
                  by (rule finish_exit) (simp_all add: exits_def)
              next
                case (ValidationError errors)
                with pre have "webhook ev cfg w req st =
                    finish ''validation_error'' 422 (DetailErrors errors) st"
                  by (simp add: webhook_def)
                then show ?thesis
                  by (rule finish_exit) (simp_all add: exits_def)
              next
                case (ParseRaises e)
                with pre show ?thesis by (intro failed) (simp add: webhook_def)
              next
                case (Parsed message)
                obtain r db where ins:
                  "insert_message (storage_faults w) (clock w) (storage st)
                     (Some (wm_message_id message)) (Some (wm_from message))
                     (Some (wm_to message)) (Some (wm_ts message)) (wm_text message) = (r, db)"
                  by (metis surj_pair)
                show ?thesis
                proof (cases r)
                  case (Inl e)
                  with pre Parsed ins have "webhook ev cfg w req st =
                      finish ''server_error'' 500 (Detail ''internal server error'')
                        (st\<lparr>storage := db\<rparr>)"
                    by (simp add: webhook_def)
                  then show ?thesis
                    by (rule finish_exit) (simp_all add: exits_def)
                next
                  case r: (Inr p)
                  obtain success is_dup where p: "p = (success, is_dup)" by (cases p) auto
                  with pre Parsed ins r have "webhook ev cfg w req st =
                      finish (if is_dup then ''duplicate'' else ''created'') 200 StatusOk
                        (st\<lparr>storage := db\<rparr>)"
                    by (simp add: webhook_def)
                  then show ?thesis
                    by (rule finish_exit) (simp_all add: exits_def)
                qed
              qed
            qed
          qed
        qed
      qed
    qed
  qed
qed

lemma latency_count_observe [simp]:
  "latency_count (observe_latency l m) = latency_count m + 1"
  by (simp add: observe_latency_def Let_def)

lemma webhook_requests_observe [simp]:
  "webhook_requests (observe_latency l m) = webhook_requests m"
  by (simp add: observe_latency_def Let_def)

lemma fold_buckets_PlusInf:
  "fold (\<lambda>bucket f. if P bucket then f(Le bucket := f (Le bucket) + 1) else f) bs g PlusInf
     = g PlusInf"
  by (induction bs arbitrary: g) simp_all

lemma latency_inf_observe [simp]:
  "latency_buckets (observe_latency l m) PlusInf = latency_buckets m PlusInf + 1"
  by (simp add: observe_latency_def Let_def fold_buckets_PlusInf)

text \<open>
  C8. Whatever the secret, the signature, the body, the store and the faults, serving
  one \<open>POST /webhook\<close> changes the metrics by exactly one webhook result (of the label
  that goes with the status answered), one count of the request by path and status, and
  one latency observation: the total over the result labels, the observation count and
  the \<open>+Inf\<close> bucket each grow by 1.
\<close>

theorem post_webhook_records_once:
  "\<exists>result.
     (result, status_code (fst (post_webhook ev cfg w req st))) \<in> set exits \<and>
     metrics (snd (post_webhook ev cfg w req st)) =
       observe_latency (elapsed_ms w)
         (inc_http_requests ''/webhook'' (status_code (fst (post_webhook ev cfg w req st)))
           (inc_webhook_requests result (metrics st))) \<and>
     webhook_results_total (metrics (snd (post_webhook ev cfg w req st))) =
       webhook_results_total (metrics st) + 1 \<and>
     latency_count (metrics (snd (post_webhook ev cfg w req st))) =
       latency_count (metrics st) + 1 \<and>
     latency_buckets (metrics (snd (post_webhook ev cfg w req st))) PlusInf =
       latency_buckets (metrics st) PlusInf + 1"
proof -
  obtain result where
    ex: "(result, status_code (fst (webhook ev cfg w req st))) \<in> set exits" and
    m: "metrics (snd (webhook ev cfg w req st)) = inc_webhook_requests result (metrics st)"
    using webhook_exit by blast
  show ?thesis
    using m ex
    by (intro exI [of _ result])
       (simp add: post_webhook_def logging_middleware_def split_beta
          webhook_results_total_def inc_webhook_requests_def inc_http_requests_def
          sum_list_dict_inc)
qed

theorem post_webhook_records_once_witness:
  "webhook_results_total (metrics (snd (post_webhook sample_env sample_settings quiet_world
      request_unsigned empty_state))) = 1 \<and>
   latency_count (metrics (snd (post_webhook sample_env sample_settings quiet_world
      request_unsigned empty_state))) = 1 \<and>
   latency_buckets (metrics (snd (post_webhook sample_env sample_settings quiet_world
      request_unsigned empty_state))) PlusInf = 1"
  using post_webhook_records_once
    [of sample_env sample_settings quiet_world request_unsigned empty_state]
  by (auto simp: empty_state_def new_metrics_def webhook_results_total_def)

section \<open>Idempotent ingestion\<close>

lemma insert_message_no_faults:
  "insert_message no_faults c db (Some k) (Some f) (Some t) (Some s) x =
     (if Some k \<in> set (map message_id db) then (Inr (True, True), db)
      else (Inr (True, False),
            db @ [\<lparr>message_id = Some k, from_msisdn = f, to_msisdn = t, ts = s,
                    msg_text = x, created_at = c\<rparr>]))"
  by (simp add: insert_message_def get_connection_def execute_insert_def no_faults_def)

lemma pk_ok_one_row:
  "pk_ok db \<Longrightarrow> Some k \<in> set (map message_id db) \<Longrightarrow> length (rows_with_id db k) = 1"
proof (induction db)
  case Nil
  then show ?case by simp
next
  case (Cons r rs)
  show ?case
  proof (cases "message_id r = Some k")
    case True
    with Cons.prems have "Some k \<notin> set (map message_id rs)"
      by (auto simp: pk_ok_def)
    then have "rows_with_id rs k = []" by (rule rows_with_id_absent)
    with True show ?thesis by (simp add: rows_with_id_def)
  next
    case False
    with Cons.prems have "pk_ok rs" "Some k \<in> set (map message_id rs)"
      by (auto simp: pk_ok_def split: if_splits)
    with Cons.IH False show ?thesis by (simp add: rows_with_id_def)
  qed
qed

text \<open>The primary-key invariant holds of the empty table and is kept by every insert.\<close>

lemma pk_ok_empty: "pk_ok []"
  by (simp add: pk_ok_def)

lemma pk_ok_insert:
  "pk_ok db \<Longrightarrow> insert_message fl c db mid f t s x = (r, db') \<Longrightarrow> pk_ok db'"
  by (auto simp: insert_message_def get_connection_def execute_insert_def pk_ok_def
           split: option.splits sum.splits if_splits)

lemma webhook_accepts:
  assumes secret: "webhook_secret cfg = Some secret" "secret \<noteq> []"
      and digest: "\<And>key msg. length (hmac_sha256 ev key msg) = 32"
      and sg: "x_signature req = Some (hexdigest (hmac_sha256 ev (encode secret) (body req)))"
      and parsed: "parse_payload ev (body req) = Parsed m"
      and ok: "storage_faults w = no_faults"
  shows "webhook ev cfg w req st =
           finish (if Some (wm_message_id m) \<in> set (map message_id (storage st))
                   then ''duplicate'' else ''created'') 200 StatusOk
             (st\<lparr>storage :=
                  if Some (wm_message_id m) \<in> set (map message_id (storage st))
                  then storage st
                  else storage st @
                    [\<lparr>message_id = Some (wm_message_id m), from_msisdn = wm_from m,
                      to_msisdn = wm_to m, ts = wm_ts m, msg_text = wm_text m,
                      created_at = clock w\<rparr>]\<rparr>)"
proof -
  let ?sg = "hexdigest (hmac_sha256 ev (encode secret) (body req))"
  have "length ?sg = 64" by (simp add: length_hexdigest digest)
  then have nonempty: "?sg \<noteq> []" by auto
  have verified: "verify_signature (hmac_sha256 ev) (body req) ?sg secret = Inr True"
    by (simp add: verify_signature_def compare_digest_def is_ascii_hexdigest)
  show ?thesis
    by (simp add: webhook_def secret sg nonempty verified parsed ok insert_message_no_faults)
qed

text \<open>
  C1. A secret is configured, the keyed hash has digests of 32 bytes, both requests
  carry the hexadecimal keyed hash of their own body, both bodies parse to valid
  messages with the same \<open>message_id\<close> (the other fields are free), the store meets no
  fault and holds no \<open>message_id\<close> twice. Then both calls answer 200 with
  \<open>{"status": "ok"}\<close>, the store holds exactly one row with that \<open>message_id\<close>
  afterwards, and the second call leaves the store as the first left it.
\<close>

theorem webhook_idempotent:
  assumes secret: "webhook_secret cfg = Some secret" "secret \<noteq> []"
      and digest: "\<And>key msg. length (hmac_sha256 ev key msg) = 32"
      and sg1: "x_signature req1 = Some (hexdigest (hmac_sha256 ev (encode secret) (body req1)))"
      and sg2: "x_signature req2 = Some (hexdigest (hmac_sha256 ev (encode secret) (body req2)))"
      and parsed1: "parse_payload ev (body req1) = Parsed m1"
      and parsed2: "parse_payload ev (body req2) = Parsed m2"
      and same: "wm_message_id m2 = wm_message_id m1"
      and ok1: "storage_faults w1 = no_faults"
      and ok2: "storage_faults w2 = no_faults"
      and pk: "pk_ok (storage st)"
      and first: "post_webhook ev cfg w1 req1 st = (resp1, st1)"
      and second: "post_webhook ev cfg w2 req2 st1 = (resp2, st2)"
  shows "resp1 = \<lparr>status_code = 200, content = StatusOk\<rparr> \<and>
         resp2 = \<lparr>status_code = 200, content = StatusOk\<rparr> \<and>
         length (rows_with_id (storage st2) (wm_message_id m1)) = 1 \<and>
         storage st2 = storage st1"
proof -
  let ?k = "wm_message_id m1"
  note w1 = webhook_accepts [OF secret digest sg1 parsed1 ok1, of st]
  have resp1: "resp1 = \<lparr>status_code = 200, content = StatusOk\<rparr>"
    using first by (auto simp: post_webhook_def logging_middleware_def w1 finish_def)
  have present: "Some ?k \<in> set (map message_id (storage st1))"
    using first by (auto simp: post_webhook_def logging_middleware_def w1 finish_def)
  have pk1: "pk_ok (storage st1)"
    using first pk by (auto simp: post_webhook_def logging_middleware_def w1 finish_def pk_ok_def)
  note w2 = webhook_accepts [OF secret digest sg2 parsed2 ok2, of st1]
  have resp2: "resp2 = \<lparr>status_code = 200, content = StatusOk\<rparr>"
    using second by (auto simp: post_webhook_def logging_middleware_def w2 finish_def)
  have same_db: "storage st2 = storage st1"
    using second present
    by (auto simp: post_webhook_def logging_middleware_def w2 finish_def same)
  from pk_ok_one_row [OF pk1 present] resp1 resp2 same_db show ?thesis by simp
qed

lemma bodies_differ: "body_2 \<noteq> body_1"
  by (simp add: body_1_def body_2_def encode_def)

theorem webhook_idempotent_witness:
  "(\<forall>key msg. length (zero_mac key msg) = 32) \<and>
   x_signature request_1 = Some (hexdigest (zero_mac (encode ''s'') (body request_1))) \<and>
   x_signature request_2 = Some (hexdigest (zero_mac (encode ''s'') (body request_2))) \<and>
   sample_parse (body request_1) = Parsed msg_1 \<and>
   sample_parse (body request_2) = Parsed msg_2 \<and>
   wm_from msg_2 \<noteq> wm_from msg_1 \<and>
   fst (post_webhook sample_env sample_settings quiet_world request_1 empty_state) =
     \<lparr>status_code = 200, content = StatusOk\<rparr> \<and>
   fst (post_webhook sample_env sample_settings quiet_world request_2
          (snd (post_webhook sample_env sample_settings quiet_world request_1 empty_state))) =
     \<lparr>status_code = 200, content = StatusOk\<rparr> \<and>
   length (rows_with_id
     (storage (snd (post_webhook sample_env sample_settings quiet_world request_2
        (snd (post_webhook sample_env sample_settings quiet_world request_1 empty_state)))))
     ''m1'') = 1"
proof -
  let ?first = "post_webhook sample_env sample_settings quiet_world request_1 empty_state"
  let ?second = "post_webhook sample_env sample_settings quiet_world request_2 (snd ?first)"
  have secret: "webhook_secret sample_settings = Some ''s''" "''s'' \<noteq> []"
    by (simp_all add: sample_settings_def)
  have digest: "length (hmac_sha256 sample_env key msg) = 32" for key msg
    by (simp add: sample_env_def zero_mac_def)
  have sg1: "x_signature request_1 =
      Some (hexdigest (hmac_sha256 sample_env (encode ''s'') (body request_1)))"
    by (simp add: request_1_def sample_env_def zero_mac_def zero_signature_def)
  have sg2: "x_signature request_2 =
      Some (hexdigest (hmac_sha256 sample_env (encode ''s'') (body request_2)))"
    by (simp add: request_2_def sample_env_def zero_mac_def zero_signature_def)
  have parsed1: "parse_payload sample_env (body request_1) = Parsed msg_1"
    by (simp add: request_1_def sample_env_def sample_parse_def)
  have parsed2: "parse_payload sample_env (body request_2) = Parsed msg_2"
    by (simp add: request_2_def sample_env_def sample_parse_def bodies_differ)
  have same: "wm_message_id msg_2 = wm_message_id msg_1"
    by (simp add: msg_1_def msg_2_def)
  have ok: "storage_faults quiet_world = no_faults"
    by (simp add: quiet_world_def)
  have pk: "pk_ok (storage empty_state)"
    by (simp add: empty_state_def pk_ok_empty)
  have first: "?first = (fst ?first, snd ?first)" and second: "?second = (fst ?second, snd ?second)"
    by simp_all
  from webhook_idempotent [OF secret digest sg1 sg2 parsed1 parsed2 same ok ok pk first second]
  have main: "fst ?first = \<lparr>status_code = 200, content = StatusOk\<rparr> \<and>
      fst ?second = \<lparr>status_code = 200, content = StatusOk\<rparr> \<and>
      length (rows_with_id (storage (snd ?second)) (wm_message_id msg_1)) = 1"
    by blast
  have k: "wm_message_id msg_1 = ''m1''" and differ: "wm_from msg_2 \<noteq> wm_from msg_1"
    by (simp_all add: msg_1_def msg_2_def)
  have mac: "\<forall>key msg. length (zero_mac key msg) = 32"
    by (simp add: zero_mac_def)
  have a1: "x_signature request_1 = Some (hexdigest (zero_mac (encode ''s'') (body request_1)))"
    using sg1 by (simp add: sample_env_def)
  have a2: "x_signature request_2 = Some (hexdigest (zero_mac (encode ''s'') (body request_2)))"
    using sg2 by (simp add: sample_env_def)
  have p1: "sample_parse (body request_1) = Parsed msg_1"
    using parsed1 by (simp add: sample_env_def)
  have p2: "sample_parse (body request_2) = Parsed msg_2"
    using parsed2 by (simp add: sample_env_def)
  from main k differ mac a1 a2 p1 p2 show ?thesis by simp
qed

section \<open>Retrieval: ordering, totals and the text filter\<close>

lemma get_messages_ok:
  "get_messages fl db limit offset from_filter since q = Inr (page, tot) \<Longrightarrow>
     tot = length (filter (where_clause (conditions from_filter since q)) db) \<and>
     page = map to_dict (limit_offset limit offset
              (order_by_ts_message_id (filter (where_clause (conditions from_filter since q)) db)))"
  by (auto simp: get_messages_def get_connection_def Let_def split: option.splits)

lemma sorted_limit_offset:
  "sorted (map f xs) \<Longrightarrow> sorted (map f (limit_offset limit offset xs))"
  by (simp add: limit_offset_def Let_def take_map [symmetric] drop_map [symmetric])

lemma sort_key_out_to_dict: "sort_key_out \<circ> to_dict = (\<lambda>r. (ts r, message_id r))"
  by (auto simp: sort_key_out_def to_dict_def)

text \<open>
  C6. Every page that \<open>get_messages\<close> returns, for any store, filters, limit and
  offset, is sorted by \<open>(ts, message_id)\<close> ascending; it is the window cut by limit
  and offset out of a list that holds exactly the rows matching the filters, sorted by
  the same key.
\<close>

theorem get_messages_ordered:
  assumes "get_messages fl db limit offset from_filter since q = Inr (page, tot)"
  shows "sorted (map sort_key_out page) \<and>
         (\<exists>rows. page = map to_dict (limit_offset limit offset rows) \<and>
            sorted (map (\<lambda>r. (ts r, message_id r)) rows) \<and>
            mset rows = mset (filter (where_clause (conditions from_filter since q)) db))"
proof -
  let ?rows = "order_by_ts_message_id (filter (where_clause (conditions from_filter since q)) db)"
  have page: "page = map to_dict (limit_offset limit offset ?rows)"
    using get_messages_ok [OF assms] by simp
  have srt: "sorted (map (\<lambda>r. (ts r, message_id r)) ?rows)"
    by (simp add: order_by_ts_message_id_def)
  have ms: "mset ?rows = mset (filter (where_clause (conditions from_filter since q)) db)"
    by (simp add: order_by_ts_message_id_def)
  have "sorted (map sort_key_out page)"
    using sorted_limit_offset [OF srt, of limit offset]
    by (simp add: page sort_key_out_to_dict)
  with page srt ms show ?thesis by blast
qed

lemma get_messages_four_rows:
  "get_messages no_faults four_rows 50 0 None None None = Inr (page_all, 4)"
  by (simp add: get_messages_def get_connection_def no_faults_def four_rows_def mk_row_def
       conditions_def where_clause_def order_by_ts_message_id_def limit_offset_def
       page_all_def)

theorem get_messages_ordered_witness:
  "get_messages no_faults four_rows 50 0 None None None = Inr (page_all, 4) \<and>
   map out_message_id page_all = [Some ''m1'', Some ''m2a'', Some ''m2b'', Some ''m3''] \<and>
   map out_ts page_all =
     [''2025-01-15T10:00:00Z'', ''2025-01-15T11:00:00Z'', ''2025-01-15T11:00:00Z'',
      ''2025-01-15T12:00:00Z''] \<and>
   sorted (map sort_key_out page_all)"
  using get_messages_ordered [OF get_messages_four_rows] get_messages_four_rows
  by (simp add: page_all_def to_dict_def mk_row_def)

text \<open>
  C7. For one store and one combination of filters, any two calls of
  \<open>get_messages\<close> that return, whatever their limits and offsets, return the same
  total, and it is the number of rows that satisfy the filters.
\<close>

theorem get_messages_total_independent:
  assumes "get_messages fl db limit offset from_filter since q = Inr (page, tot)"
      and "get_messages fl' db limit' offset' from_filter since q = Inr (page', tot')"
  shows "tot' = tot \<and>
         tot = length (filter (where_clause (conditions from_filter since q)) db)"
  using get_messages_ok [OF assms(1)] get_messages_ok [OF assms(2)] by simp

lemma get_messages_sender:
  "get_messages no_faults four_rows 50 0 (Some ''+919876543210'') None None =
     Inr (page_sender, 3)"
  by (simp add: get_messages_def get_connection_def no_faults_def four_rows_def mk_row_def
       conditions_def where_clause_def order_by_ts_message_id_def limit_offset_def
       page_sender_def)

lemma get_messages_window:
  "get_messages no_faults four_rows 2 1 (Some ''+919876543210'') None None =
     Inr (page_window, 3)"
  by (simp add: get_messages_def get_connection_def no_faults_def four_rows_def mk_row_def
       conditions_def where_clause_def order_by_ts_message_id_def limit_offset_def
       page_window_def)

theorem get_messages_total_independent_witness:
  "get_messages no_faults four_rows 50 0 (Some ''+919876543210'') None None =
     Inr (page_sender, 3) \<and>
   get_messages no_faults four_rows 2 1 (Some ''+919876543210'') None None =
     Inr (page_window, 3) \<and>
   length (filter (where_clause (conditions (Some ''+919876543210'') None None)) four_rows) = 3"
  using get_messages_total_independent [OF get_messages_sender get_messages_window]
    get_messages_sender get_messages_window
  by simp

lemma pattern_compare_percent: "pattern_compare [CHR ''%''] t"
  by (induction t) simp_all

lemma pattern_compare_percents: "pattern_compare (CHR ''%'' # CHR ''%'' # [CHR ''%'']) t"
  using pattern_compare_percent [of t] by (cases t) simp_all

lemma pattern_compare_any_one:
  "pattern_compare (CHR ''%'' # CHR ''_'' # [CHR ''%'']) t = (t \<noteq> [])"
  using pattern_compare_percent by (induction t) auto

lemma like_percents: "like (CHR ''%'' # CHR ''%'' # [CHR ''%'']) t"
  by (simp add: like_def c_string_def pattern_compare_percents)

lemma like_any_one: "like (CHR ''%'' # CHR ''_'' # [CHR ''%'']) t = (c_string t \<noteq> [])"
  by (simp add: like_def c_string_def [of "CHR ''%'' # CHR ''_'' # [CHR ''%'']"]
        pattern_compare_any_one)

text \<open>
  The operator stops at a NUL character in the text and in the pattern: for \<open>q = "_"\<close>
  a text that begins with NUL is not selected, for \<open>q = "b"\<close> a text whose \<open>b\<close>
  comes after a NUL is not selected, and a \<open>q\<close> that is one NUL character selects any
  text.
\<close>

lemma like_stops_at_nul:
  "\<not> like (CHR ''%'' # ''_'' @ [CHR ''%'']) (CHR 0x00 # ''abc'') \<and>
   \<not> like (CHR ''%'' # ''b'' @ [CHR ''%'']) (CHR ''a'' # CHR 0x00 # ''b'') \<and>
   like (CHR ''%'' # [CHR 0x00] @ [CHR ''%'']) t"
  by (simp add: like_def c_string_def ascii_lower_def pattern_compare_percent)

text \<open>
  C10. The filter \<open>q\<close> goes into the \<open>LIKE\<close> pattern as it is. With \<open>q = "%"\<close> the
  text condition holds of every row whose text is not \<open>NULL\<close>, with \<open>q = "_"\<close> of
  every row whose text has at least one character before its first NUL, whatever the
  text says. So the stored message \<open>Hello\<close> is returned for \<open>q = "%"\<close> and for
  \<open>q = "H_l"\<close>, and its text contains neither of them.
\<close>

theorem q_wildcards_not_escaped:
  "where_clause (conditions from_filter since (Some ''%'')) r =
     (where_clause (conditions from_filter since None) r \<and> msg_text r \<noteq> None) \<and>
   where_clause (conditions from_filter since (Some ''_'')) r =
     (where_clause (conditions from_filter since None) r \<and>
      (\<exists>t. msg_text r = Some t \<and> c_string t \<noteq> [])) \<and>
   get_messages no_faults [row_a] 50 0 None None (Some ''%'') = Inr ([to_dict row_a], 1) \<and>
   get_messages no_faults [row_a] 50 0 None None (Some ''H_l'') = Inr ([to_dict row_a], 1) \<and>
   out_text (to_dict row_a) = Some ''Hello'' \<and>
   \<not> contains ''%'' ''Hello'' \<and> \<not> contains ''H_l'' ''Hello''"
proof -
  have general:
    "where_clause (conditions from_filter since (Some ''%'')) r =
       (where_clause (conditions from_filter since None) r \<and> msg_text r \<noteq> None)"
    "where_clause (conditions from_filter since (Some ''_'')) r =
       (where_clause (conditions from_filter since None) r \<and>
        (\<exists>t. msg_text r = Some t \<and> c_string t \<noteq> []))"
    using like_percents like_any_one
    by (auto simp: where_clause_def conditions_def split: option.splits)
  have percent: "get_messages no_faults [row_a] 50 0 None None (Some ''%'') =
      Inr ([to_dict row_a], 1)"
    by (simp add: get_messages_def get_connection_def no_faults_def row_a_def
         conditions_def where_clause_def order_by_ts_message_id_def limit_offset_def
         like_def c_string_def)
  have underscore: "get_messages no_faults [row_a] 50 0 None None (Some ''H_l'') =
      Inr ([to_dict row_a], 1)"
    by (simp add: get_messages_def get_connection_def no_faults_def row_a_def
         conditions_def where_clause_def order_by_ts_message_id_def limit_offset_def
         like_def c_string_def ascii_lower_def)
  have literal: "out_text (to_dict row_a) = Some ''Hello''"
    "\<not> contains ''%'' ''Hello''" "\<not> contains ''H_l'' ''Hello''"
    by (simp_all add: to_dict_def row_a_def contains_def upt_rec)
  from general percent underscore literal show ?thesis by blast
qed

section \<open>Statistics\<close>

lemma count_rows:
  "length (filter (\<lambda>r. from_msisdn r = s) db) = count_list (map from_msisdn db) s"
  by (induction db) simp_all

lemma sum_group_by_from: "sum_list (map snd (group_by_from db)) = length db"
proof -
  let ?xs = "map from_msisdn db"
  have "sum_list (map snd (group_by_from db)) =
          sum_list (map (count_list ?xs) (sort (remdups ?xs)))"
    by (simp add: group_by_from_def comp_def count_rows)
  also have "\<dots> = sum (count_list ?xs) (set (sort (remdups ?xs)))"
    by (rule sum_list_distinct_conv_sum_set) simp
  also have "\<dots> = length ?xs"
    by (simp add: sum_count_set)
  finally show ?thesis by simp
qed

lemma sum_list_insort_key:
  "sum_list (map f (insort_key k x xs)) = f x + sum_list (map f xs)" for f :: "'a \<Rightarrow> nat"
  by (induction xs) simp_all

lemma sum_list_sort_key:
  "sum_list (map f (sort_key k xs)) = sum_list (map f xs)" for f :: "'a \<Rightarrow> nat"
  by (induction xs) (simp_all add: sum_list_insort_key)

lemma group_counts_positive: "(s, c) \<in> set (group_by_from db) \<Longrightarrow> 0 < c"
  by (auto simp: group_by_from_def filter_empty_conv)

lemma sum_list_positive:
  "xs \<noteq> [] \<Longrightarrow> (\<And>x. x \<in> set xs \<Longrightarrow> 0 < f x) \<Longrightarrow> 0 < sum_list (map f xs)"
  for f :: "'a \<Rightarrow> nat"
  by (cases xs) auto

lemma top_senders_sum:
  "sum_list (map snd (top_senders db)) \<le> length db \<and>
   (sum_list (map snd (top_senders db)) = length db \<longleftrightarrow>
      length (remdups (map from_msisdn db)) \<le> 10)"
proof -
  let ?gs = "sort_key (\<lambda>(s, c). - int c) (group_by_from db)"
  have len: "length ?gs = length (remdups (map from_msisdn db))"
    by (simp add: group_by_from_def)
  have split: "sum_list (map snd (take 10 ?gs)) + sum_list (map snd (drop 10 ?gs)) = length db"
    using sum_list_sort_key [of snd "\<lambda>(s, c). - int c" "group_by_from db"]
      sum_group_by_from [of db]
    by (metis append_take_drop_id map_append sum_list_append)
  have rest: "0 < sum_list (map snd (drop 10 ?gs))" if "10 < length ?gs"
  proof (rule sum_list_positive)
    from that show "drop 10 ?gs \<noteq> []" by simp
    fix x assume "x \<in> set (drop 10 ?gs)"
    then have "x \<in> set (group_by_from db)" by (auto dest: in_set_dropD)
    then show "0 < snd x" using group_counts_positive [of "fst x" "snd x" db] by simp
  qed
  have none: "sum_list (map snd (drop 10 ?gs)) = 0" if "length ?gs \<le> 10"
    using that by simp
  show ?thesis
    using split rest none len unfolding top_senders_def
    by (cases "length ?gs \<le> 10") auto
qed

text \<open>
  C4, as stated: the counts of \<open>messages_per_sender\<close> add up to \<open>total_messages\<close>
  for every store. With eleven messages of eleven senders the list holds ten entries
  of count 1: the sum is 10 and the total is 11.
\<close>

theorem get_stats_sum_counterexample:
  "get_stats no_faults senders_11 = Inr stats_11 \<and>
   sum_counts stats_11 = 10 \<and> total_messages stats_11 = 11 \<and>
   sum_counts stats_11 \<noteq> total_messages stats_11"
  by (simp add: get_stats_def get_connection_def no_faults_def senders_11_def mk_row_def
       stats_11_def top_senders_def group_by_from_def min_max_ts_def sum_counts_def)

text \<open>
  C4, amended. The counts of \<open>messages_per_sender\<close> add up to at most
  \<open>total_messages\<close>, and to exactly \<open>total_messages\<close> if and only if the store has at
  most ten distinct senders.
\<close>

theorem get_stats_sum_counts:
  assumes "get_stats fl db = Inr st"
  shows "sum_counts st \<le> total_messages st \<and>
         (sum_counts st = total_messages st \<longleftrightarrow> senders_count st \<le> 10)"
  using assms top_senders_sum [of db]
  by (auto simp: get_stats_def get_connection_def sum_counts_def split: option.splits)

lemma get_stats_four_rows: "get_stats no_faults four_rows = Inr stats_4"
  by (simp add: get_stats_def get_connection_def no_faults_def four_rows_def mk_row_def
       stats_4_def top_senders_def group_by_from_def min_max_ts_def)

theorem get_stats_sum_counts_witness:
  "get_stats no_faults four_rows = Inr stats_4 \<and>
   sum_counts stats_4 = 4 \<and> total_messages stats_4 = 4 \<and> senders_count stats_4 = 2"
  using get_stats_sum_counts [OF get_stats_four_rows] get_stats_four_rows
  by (simp add: stats_4_def)

section \<open>The latency histogram\<close>

text \<open>
  What holds of the histogram for every sequence of observations: each stored bucket
  counts the observations at or below its boundary, the \<open>+Inf\<close> line and the count
  line both show the number of observations, and the lines of the finite buckets never
  decrease.
\<close>


lemma fold_observe_count:
  "latency_count (fold observe_latency obs m) = latency_count m + length obs \<and>
   latency_buckets (fold observe_latency obs m) PlusInf = latency_buckets m PlusInf + length obs"
  by (induction obs arbitrary: m) simp_all

lemma inf_bucket_is_count:
  "latency_buckets (observe_all obs) PlusInf = latency_count (observe_all obs)"
  by (simp add: observe_all_def fold_observe_count new_metrics_def)

lemma observe_bucket:
  "b \<in> set LATENCY_BUCKETS \<Longrightarrow>
     latency_buckets (observe_latency l m) (Le b) =
       latency_buckets m (Le b) + (if l \<le> of_nat b then 1 else 0)"
  by (auto simp: observe_latency_def LATENCY_BUCKETS_def Let_def)

lemma fold_observe_bucket:
  "b \<in> set LATENCY_BUCKETS \<Longrightarrow>
     latency_buckets (fold observe_latency obs m) (Le b) =
       latency_buckets m (Le b) + length (filter (\<lambda>l. l \<le> of_nat b) obs)"
  by (induction obs arbitrary: m) (simp_all add: observe_bucket)

lemma stored_bucket_counts_le:
  "b \<in> set LATENCY_BUCKETS \<Longrightarrow>
     latency_buckets (observe_all obs) (Le b) = length (filter (\<lambda>l. l \<le> of_nat b) obs)"
  by (simp add: observe_all_def fold_observe_bucket new_metrics_def)

lemma bucket_lines_sorted:
  "sorted (bucket_counts (bucket_lines f c bs)) \<and>
   (\<forall>x \<in> set (bucket_counts (bucket_lines f c bs)). c \<le> x)"
proof (induction bs arbitrary: c)
  case Nil
  then show ?case by simp
next
  case (Cons b bs)
  from Cons.IH [of "c + f (Le b)"] show ?case by fastforce
qed

lemma bucket_counts_append:
  "bucket_counts (xs @ ys) = bucket_counts xs @ bucket_counts ys"
  by (induction xs rule: bucket_counts.induct) simp_all

lemma bucket_counts_http:
  "bucket_counts (map (\<lambda>((path, status), count). HttpRequestsTotal path status count) xs) = []"
  by (induction xs) (simp_all add: split_beta)

lemma bucket_counts_webhook:
  "bucket_counts (map (\<lambda>(result, count). WebhookRequestsTotal result count) xs) = []"
  by (induction xs) (simp_all add: split_beta)

lemma count_line_append:
  "count_line (xs @ ys) = (case count_line xs of Some n \<Rightarrow> Some n | None \<Rightarrow> count_line ys)"
  by (induction xs rule: count_line.induct) simp_all

lemma count_line_http:
  "count_line (map (\<lambda>((path, status), count). HttpRequestsTotal path status count) xs) = None"
  by (induction xs) (simp_all add: split_beta)

lemma count_line_webhook:
  "count_line (map (\<lambda>(result, count). WebhookRequestsTotal result count) xs) = None"
  by (induction xs) (simp_all add: split_beta)

lemma count_line_buckets: "count_line (bucket_lines f c bs) = None"
  by (induction bs arbitrary: c) simp_all

lemma format_prometheus_buckets:
  "bucket_counts (format_prometheus m) =
     bucket_counts (bucket_lines (latency_buckets m) 0 LATENCY_BUCKETS) @
       [latency_buckets m PlusInf]"
  by (simp add: format_prometheus_def bucket_counts_append bucket_counts_http
        bucket_counts_webhook)

lemma format_prometheus_count:
  "count_line (format_prometheus m) = Some (latency_count m)"
  by (simp add: format_prometheus_def count_line_append count_line_http count_line_webhook
        count_line_buckets)

lemma inf_line_is_count_line:
  "last (bucket_counts (format_prometheus (observe_all obs))) =
     latency_count (observe_all obs) \<and>
   count_line (format_prometheus (observe_all obs)) = Some (latency_count (observe_all obs)) \<and>
   latency_count (observe_all obs) = length obs"
  by (simp add: format_prometheus_buckets format_prometheus_count inf_bucket_is_count
        observe_all_def fold_observe_count new_metrics_def)

lemma finite_bucket_lines_sorted:
  "sorted (butlast (bucket_counts (format_prometheus m)))"
  by (simp add: format_prometheus_buckets bucket_lines_sorted)

text \<open>
  C3. The claim is that in the output of \<open>format_prometheus\<close> no bucket line counts
  more than the next one and the \<open>+Inf\<close> line equals \<open>request_latency_ms_count\<close>.
  \<open>observe_latency\<close> already counts an observation in every bucket at or above it,
  and \<open>format_prometheus\<close> adds the stored buckets up once more. After the single
  observation of 5 ms the bucket lines read 1, 2, ..., 10 for the boundaries 10 to 10000,
  then 1 for \<open>+Inf\<close>; the count line reads 1.
\<close>

theorem format_prometheus_accumulates_twice:
  "bucket_counts (format_prometheus (observe_latency 5 new_metrics)) =
     [1, 2, 3, 4, 5, 6, 7, 8, 9, 10, 1] \<and>
   count_line (format_prometheus (observe_latency 5 new_metrics)) = Some 1 \<and>
   \<not> sorted (bucket_counts (format_prometheus (observe_latency 5 new_metrics)))"
  by (simp add: format_prometheus_def observe_latency_def new_metrics_def LATENCY_BUCKETS_def)

end
